theory Spec2Isabelle
  imports Main "HOL-Library.Word" "HOL-Library.Signed_Division"
begin

unbundle bit_operations_syntax

section \<open>Machine types\<close>

text \<open>
  Go's \<open>uintptr\<close>, \<open>int\<close>, \<open>int64\<close> and \<open>uint64\<close> are 64-bit words on every Linux
  target of the package; \<open>int32\<close> is a 32-bit word. Signed readings use \<open>sint\<close>,
  \<open><s\<close> and \<open>\<le>s\<close>; conversions are \<open>ucast\<close> (truncate or zero-extend) and \<open>scast\<close>
  (sign-extend), as Go's conversions between integer types are.
\<close>

type_synonym uintptr = "64 word"
type_synonym go_int = "64 word"
type_synonym int64 = "64 word"
type_synonym uint64 = "64 word"
type_synonym int32 = "32 word"
type_synonym byte = "8 word"

section \<open>Errors (errors.go and iox.ErrWouldBlock)\<close>

text \<open>
  The package's error values, \<open>iox.ErrWouldBlock\<close>, and a raw \<open>zcall.Errno\<close> returned
  as an error. A Go \<open>error\<close> result is an \<open>error option\<close>: \<open>nil\<close> is \<open>None\<close>.
\<close>

datatype error =
    ErrWouldBlock
  | ErrClosed
  | ErrInvalidParam
  | ErrInterrupted
  | ErrNoMemory
  | ErrPermission
  | ErrOverflow
  | Errno uintptr

section \<open>The kernel interface (package zcall)\<close>

record timespec =
  sec :: int64
  nsec :: int64

record itimerspec =
  it_interval :: timespec
  it_value :: timespec

text \<open>
  One constructor for each \<open>zcall\<close> entry point the package uses, with the arguments
  the package passes. A buffer handed to \<open>read\<close> is its length; pointers to structures
  are the structures.
\<close>

datatype syscall =
    SysClose uintptr
  | SysRead uintptr nat
  | SysWrite uintptr "byte list"
  | SysSyscall4 uintptr uintptr uintptr uintptr uintptr
  | SysEventfd2 uintptr uintptr
  | SysTimerfdCreate uintptr uintptr
  | SysTimerfdSettime uintptr uintptr itimerspec
  | SysTimerfdGettime uintptr
  | SysSignalfd4 uintptr uint64 uintptr uintptr
  | SysPidfdOpen uintptr uintptr
  | SysPidfdSendSignal uintptr uintptr
  | SysPidfdGetfd uintptr uintptr uintptr
  | SysMemfdCreate "byte list" uintptr

text \<open>
  What the kernel answers: the result value, the errno, the bytes it stored into the
  caller's buffer, and the structures filled in by \<open>timerfd_gettime\<close> and \<open>fstat\<close>.
\<close>

record reply =
  ret :: uintptr
  errno :: uintptr
  data :: "byte list"
  curr_spec :: itimerspec
  st_size :: int64

type_synonym trace = "syscall list"

text \<open>
  The package \<open>zcall\<close> is not part of the repository: its errno constants, its two
  syscall numbers and the kernel behind it are parameters. The kernel is any function
  from the calls made so far and the present call to a reply.
\<close>

record zcall =
  EAGAIN :: uintptr
  EBADF :: uintptr
  EINVAL :: uintptr
  EINTR :: uintptr
  ENOMEM :: uintptr
  EACCES :: uintptr
  EPERM :: uintptr
  SYS_FTRUNCATE :: uintptr
  SYS_FSTAT :: uintptr
  kernel :: "trace \<Rightarrow> syscall \<Rightarrow> reply"

text \<open>Performing a kernel call: the reply, and the trace extended by the call.\<close>

definition invoke :: "zcall \<Rightarrow> syscall \<Rightarrow> trace \<Rightarrow> reply \<times> trace" where
  "invoke Z c h = (kernel Z h c, h @ [c])"

text \<open>The kernel storing \<open>bs\<close> at the start of the caller's buffer \<open>p\<close>.\<close>

definition store :: "byte list \<Rightarrow> byte list \<Rightarrow> byte list" where
  "store bs p = take (length p) bs @ drop (length bs) p"

section \<open>Platform constants (const_linux.go)\<close>

definition SYS_FCNTL :: uintptr where "SYS_FCNTL = 72"
definition FD_CLOEXEC :: uintptr where "FD_CLOEXEC = 1"
definition O_NONBLOCK :: uintptr where "O_NONBLOCK = 0x800"
definition F_GETFD :: uintptr where "F_GETFD = 1"
definition F_SETFD :: uintptr where "F_SETFD = 2"
definition F_GETFL :: uintptr where "F_GETFL = 3"
definition F_SETFL :: uintptr where "F_SETFL = 4"
definition F_DUPFD_CLOEXEC :: uintptr where "F_DUPFD_CLOEXEC = 1030"

section \<open>fd.go\<close>

type_synonym FD = int32

definition InvalidFD :: FD where
  "InvalidFD = - 1"

definition errFromErrno :: "zcall \<Rightarrow> uintptr \<Rightarrow> error option" where
  "errFromErrno Z e =
    (if e = 0 then None
     else if e = EAGAIN Z then Some ErrWouldBlock
     else if e = EBADF Z then Some ErrClosed
     else if e = EINVAL Z then Some ErrInvalidParam
     else if e = EINTR Z then Some ErrInterrupted
     else if e = ENOMEM Z then Some ErrNoMemory
     else if e = EACCES Z \<or> e = EPERM Z then Some ErrPermission
     else Some (Errno e))"

definition NewFD :: "go_int \<Rightarrow> FD" where
  "NewFD fd = ucast fd"

definition FD_Raw :: "FD \<Rightarrow> int32" where
  "FD_Raw fd = fd"

definition FD_Fd :: "FD \<Rightarrow> go_int" where
  "FD_Fd fd = scast (FD_Raw fd)"

definition FD_Valid :: "FD \<Rightarrow> bool" where
  "FD_Valid fd = (0 \<le>s FD_Raw fd)"

text \<open>\<open>Close\<close> returns the error, the new content of the slot and the trace.\<close>

definition FD_Close :: "zcall \<Rightarrow> FD \<Rightarrow> trace \<Rightarrow> error option \<times> FD \<times> trace" where
  "FD_Close Z fd h =
    (let old = fd; fd' = - 1 in
     if old <s 0 then (None, fd', h)
     else
       let (r, h') = invoke Z (SysClose (scast old)) h in
       if errno r \<noteq> 0 then (errFromErrno Z (errno r), fd', h')
       else (None, fd', h'))"

text \<open>
  \<open>Read\<close> and \<open>Write\<close> return the count, the error, and the trace; \<open>Read\<close> also the
  buffer as the kernel left it.
\<close>

definition FD_Read :: "zcall \<Rightarrow> FD \<Rightarrow> byte list \<Rightarrow> trace \<Rightarrow> go_int \<times> error option \<times> byte list \<times> trace" where
  "FD_Read Z fd p h =
    (if length p = 0 then (0, None, p, h)
     else
       let raw = FD_Raw fd in
       if raw <s 0 then (0, Some ErrClosed, p, h)
       else
         let (r, h') = invoke Z (SysRead (scast raw) (length p)) h in
         if errno r \<noteq> 0 then (ret r, errFromErrno Z (errno r), store (data r) p, h')
         else (ret r, None, store (data r) p, h'))"

definition FD_Write :: "zcall \<Rightarrow> FD \<Rightarrow> byte list \<Rightarrow> trace \<Rightarrow> go_int \<times> error option \<times> trace" where
  "FD_Write Z fd p h =
    (if length p = 0 then (0, None, h)
     else
       let raw = FD_Raw fd in
       if raw <s 0 then (0, Some ErrClosed, h)
       else
         let (r, h') = invoke Z (SysWrite (scast raw) p) h in
         if errno r \<noteq> 0 then (ret r, errFromErrno Z (errno r), h')
         else (ret r, None, h'))"

definition FD_SetNonblock :: "zcall \<Rightarrow> FD \<Rightarrow> bool \<Rightarrow> trace \<Rightarrow> error option \<times> trace" where
  "FD_SetNonblock Z fd nonblock h =
    (let raw = FD_Raw fd in
     if raw <s 0 then (Some ErrClosed, h)
     else
       let (r, h1) = invoke Z (SysSyscall4 SYS_FCNTL (scast raw) F_GETFL 0 0) h in
       if errno r \<noteq> 0 then (errFromErrno Z (errno r), h1)
       else
         let flags = (if nonblock then ret r OR O_NONBLOCK else ret r AND NOT O_NONBLOCK);
             (r2, h2) = invoke Z (SysSyscall4 SYS_FCNTL (scast raw) F_SETFL flags 0) h1 in
         if errno r2 \<noteq> 0 then (errFromErrno Z (errno r2), h2)
         else (None, h2))"

definition FD_SetCloexec :: "zcall \<Rightarrow> FD \<Rightarrow> bool \<Rightarrow> trace \<Rightarrow> error option \<times> trace" where
  "FD_SetCloexec Z fd cloexec h =
    (let raw = FD_Raw fd in
     if raw <s 0 then (Some ErrClosed, h)
     else
       let (r, h1) = invoke Z (SysSyscall4 SYS_FCNTL (scast raw) F_GETFD 0 0) h in
       if errno r \<noteq> 0 then (errFromErrno Z (errno r), h1)
       else
         let flags = (if cloexec then ret r OR FD_CLOEXEC else ret r AND NOT FD_CLOEXEC);
             (r2, h2) = invoke Z (SysSyscall4 SYS_FCNTL (scast raw) F_SETFD flags 0) h1 in
         if errno r2 \<noteq> 0 then (errFromErrno Z (errno r2), h2)
         else (None, h2))"

definition FD_Dup :: "zcall \<Rightarrow> FD \<Rightarrow> trace \<Rightarrow> FD \<times> error option \<times> trace" where
  "FD_Dup Z fd h =
    (let raw = FD_Raw fd in
     if raw <s 0 then (InvalidFD, Some ErrClosed, h)
     else
       let (r, h') = invoke Z (SysSyscall4 SYS_FCNTL (scast raw) F_DUPFD_CLOEXEC 0 0) h in
       if errno r \<noteq> 0 then (InvalidFD, errFromErrno Z (errno r), h')
       else (ucast (ret r), None, h'))"

text \<open>
  The methods of \<open>*FD\<close> as one step on the slot and the trace, for statements about
  every sequence of operations. Only \<open>Close\<close> writes the slot.
\<close>

datatype fd_op =
    OpRaw
  | OpFd
  | OpValid
  | OpClose
  | OpRead "byte list"
  | OpWrite "byte list"
  | OpSetNonblock bool
  | OpSetCloexec bool
  | OpDup

fun FD_step :: "zcall \<Rightarrow> fd_op \<Rightarrow> FD \<times> trace \<Rightarrow> FD \<times> trace" where
  "FD_step Z OpRaw (fd, h) = (fd, h)"
| "FD_step Z OpFd (fd, h) = (fd, h)"
| "FD_step Z OpValid (fd, h) = (fd, h)"
| "FD_step Z OpClose (fd, h) = snd (FD_Close Z fd h)"
| "FD_step Z (OpRead p) (fd, h) = (fd, snd (snd (snd (FD_Read Z fd p h))))"
| "FD_step Z (OpWrite p) (fd, h) = (fd, snd (snd (FD_Write Z fd p h)))"
| "FD_step Z (OpSetNonblock b) (fd, h) = (fd, snd (FD_SetNonblock Z fd b h))"
| "FD_step Z (OpSetCloexec b) (fd, h) = (fd, snd (FD_SetCloexec Z fd b h))"
| "FD_step Z OpDup (fd, h) = (fd, snd (snd (FD_Dup Z fd h)))"

fun FD_run :: "zcall \<Rightarrow> fd_op list \<Rightarrow> FD \<times> trace \<Rightarrow> FD \<times> trace" where
  "FD_run Z [] s = s"
| "FD_run Z (op # ops) s = FD_run Z ops (FD_step Z op s)"

section \<open>eventfd.go\<close>

record EventFD =
  e_fd :: FD

definition EFD_SEMAPHORE :: uintptr where "EFD_SEMAPHORE = 0x1"
definition EFD_CLOEXEC :: uintptr where "EFD_CLOEXEC = 0x80000"
definition EFD_NONBLOCK :: uintptr where "EFD_NONBLOCK = 0x800"

text \<open>
  \<open>binary.NativeEndian\<close> on the package's Linux targets (amd64, arm64, loong64) is
  little-endian: byte \<open>i\<close> of the record holds bits \<open>8 i\<close> to \<open>8 i + 7\<close>.
\<close>

definition PutUint64 :: "uint64 \<Rightarrow> byte list" where
  "PutUint64 v = map (\<lambda>i. ucast (drop_bit (8 * i) v)) [0..<8]"

definition Uint64 :: "byte list \<Rightarrow> uint64" where
  "Uint64 b = foldr (\<lambda>x acc. ucast x OR push_bit 8 acc) (take 8 b) 0"

definition newEventFD :: "zcall \<Rightarrow> uint64 \<Rightarrow> uintptr \<Rightarrow> trace \<Rightarrow> EventFD option \<times> error option \<times> trace" where
  "newEventFD Z initval flags h =
    (let (r, h') = invoke Z (SysEventfd2 initval flags) h in
     if errno r \<noteq> 0 then (None, errFromErrno Z (errno r), h')
     else (Some \<lparr>e_fd = ucast (ret r)\<rparr>, None, h'))"

definition NewEventFD :: "zcall \<Rightarrow> uint64 \<Rightarrow> trace \<Rightarrow> EventFD option \<times> error option \<times> trace" where
  "NewEventFD Z initval h = newEventFD Z initval (EFD_NONBLOCK OR EFD_CLOEXEC) h"

definition NewEventFDSemaphore :: "zcall \<Rightarrow> uint64 \<Rightarrow> trace \<Rightarrow> EventFD option \<times> error option \<times> trace" where
  "NewEventFDSemaphore Z initval h =
    newEventFD Z initval (EFD_SEMAPHORE OR EFD_NONBLOCK OR EFD_CLOEXEC) h"

definition EventFD_Fd :: "EventFD \<Rightarrow> go_int" where
  "EventFD_Fd e = FD_Fd (e_fd e)"

definition EventFD_Close :: "zcall \<Rightarrow> EventFD \<Rightarrow> trace \<Rightarrow> error option \<times> EventFD \<times> trace" where
  "EventFD_Close Z e h =
    (let (err, fd', h') = FD_Close Z (e_fd e) h in (err, e\<lparr>e_fd := fd'\<rparr>, h'))"

definition EventFD_Signal :: "zcall \<Rightarrow> EventFD \<Rightarrow> uint64 \<Rightarrow> trace \<Rightarrow> error option \<times> trace" where
  "EventFD_Signal Z e val h =
    (if val = 0 then (None, h)
     else
       let raw = FD_Raw (e_fd e) in
       if raw <s 0 then (Some ErrClosed, h)
       else
         let buf = PutUint64 val;
             (r, h') = invoke Z (SysWrite (scast raw) buf) h in
         if errno r \<noteq> 0 then
           (if errno r = EAGAIN Z then (Some ErrWouldBlock, h')
            else (errFromErrno Z (errno r), h'))
         else if ret r \<noteq> 8 then (Some ErrInvalidParam, h')
         else (None, h'))"

definition EventFD_Wait :: "zcall \<Rightarrow> EventFD \<Rightarrow> trace \<Rightarrow> uint64 \<times> error option \<times> trace" where
  "EventFD_Wait Z e h =
    (let raw = FD_Raw (e_fd e) in
     if raw <s 0 then (0, Some ErrClosed, h)
     else
       let buf = replicate 8 0;
           (r, h') = invoke Z (SysRead (scast raw) (length buf)) h in
       if errno r \<noteq> 0 then
         (if errno r = EAGAIN Z then (0, Some ErrWouldBlock, h')
          else (0, errFromErrno Z (errno r), h'))
       else if ret r \<noteq> 8 then (0, Some ErrInvalidParam, h')
       else (Uint64 (store (data r) buf), None, h'))"

definition EventFD_Read :: "zcall \<Rightarrow> EventFD \<Rightarrow> byte list \<Rightarrow> trace \<Rightarrow> go_int \<times> error option \<times> byte list \<times> trace" where
  "EventFD_Read Z e p h =
    (if length p < 8 then (0, Some ErrInvalidParam, p, h)
     else
       let raw = FD_Raw (e_fd e) in
       if raw <s 0 then (0, Some ErrClosed, p, h)
       else
         let (r, h') = invoke Z (SysRead (scast raw) (length (take 8 p))) h;
             p' = store (data r) (take 8 p) @ drop 8 p in
         if errno r \<noteq> 0 then (ret r, errFromErrno Z (errno r), p', h')
         else (ret r, None, p', h'))"

definition EventFD_Write :: "zcall \<Rightarrow> EventFD \<Rightarrow> byte list \<Rightarrow> trace \<Rightarrow> go_int \<times> error option \<times> trace" where
  "EventFD_Write Z e p h =
    (if length p < 8 then (0, Some ErrInvalidParam, h)
     else
       let raw = FD_Raw (e_fd e) in
       if raw <s 0 then (0, Some ErrClosed, h)
       else
         let (r, h') = invoke Z (SysWrite (scast raw) (take 8 p)) h in
         if errno r \<noteq> 0 then (ret r, errFromErrno Z (errno r), h')
         else (ret r, None, h'))"

definition EventFD_Value :: "EventFD \<Rightarrow> uint64 \<times> error option" where
  "EventFD_Value e = (0, Some ErrInvalidParam)"

section \<open>timerfd.go\<close>

record TimerFD =
  t_fd :: FD

definition CLOCK_REALTIME :: uintptr where "CLOCK_REALTIME = 0"
definition CLOCK_MONOTONIC :: uintptr where "CLOCK_MONOTONIC = 1"
definition CLOCK_BOOTTIME :: uintptr where "CLOCK_BOOTTIME = 7"
definition TFD_CLOEXEC :: uintptr where "TFD_CLOEXEC = 0x80000"
definition TFD_NONBLOCK :: uintptr where "TFD_NONBLOCK = 0x800"
definition TFD_TIMER_ABSTIME :: uintptr where "TFD_TIMER_ABSTIME = 0x1"

text \<open>The constant \<open>1e9\<close> at type \<open>int64\<close>.\<close>

definition nanos_per_sec :: int64 where
  "nanos_per_sec = 1000000000"

definition newTimerFD :: "zcall \<Rightarrow> uintptr \<Rightarrow> uintptr \<Rightarrow> trace \<Rightarrow> TimerFD option \<times> error option \<times> trace" where
  "newTimerFD Z clockid flags h =
    (let (r, h') = invoke Z (SysTimerfdCreate clockid flags) h in
     if errno r \<noteq> 0 then (None, errFromErrno Z (errno r), h')
     else (Some \<lparr>t_fd = ucast (ret r)\<rparr>, None, h'))"

definition NewTimerFD :: "zcall \<Rightarrow> trace \<Rightarrow> TimerFD option \<times> error option \<times> trace" where
  "NewTimerFD Z h = newTimerFD Z CLOCK_MONOTONIC (TFD_NONBLOCK OR TFD_CLOEXEC) h"

definition NewTimerFDRealtime :: "zcall \<Rightarrow> trace \<Rightarrow> TimerFD option \<times> error option \<times> trace" where
  "NewTimerFDRealtime Z h = newTimerFD Z CLOCK_REALTIME (TFD_NONBLOCK OR TFD_CLOEXEC) h"

definition NewTimerFDBoottime :: "zcall \<Rightarrow> trace \<Rightarrow> TimerFD option \<times> error option \<times> trace" where
  "NewTimerFDBoottime Z h = newTimerFD Z CLOCK_BOOTTIME (TFD_NONBLOCK OR TFD_CLOEXEC) h"

definition TimerFD_Fd :: "TimerFD \<Rightarrow> go_int" where
  "TimerFD_Fd t = FD_Fd (t_fd t)"

definition TimerFD_Close :: "zcall \<Rightarrow> TimerFD \<Rightarrow> trace \<Rightarrow> error option \<times> TimerFD \<times> trace" where
  "TimerFD_Close Z t h =
    (let (err, fd', h') = FD_Close Z (t_fd t) h in (err, t\<lparr>t_fd := fd'\<rparr>, h'))"

text \<open>
  Go's \<open>/\<close> and \<open>%\<close> on \<open>int64\<close> truncate towards zero, the remainder taking the sign
  of the dividend: \<open>sdiv\<close> and \<open>smod\<close> on the signed readings. The divisor is the
  constant \<open>1e9\<close>, so neither the division by zero nor the overflow case arises.
\<close>

definition int64_quo :: "int64 \<Rightarrow> int64 \<Rightarrow> int64" where
  "int64_quo a b = word_of_int (sint a sdiv sint b)"

definition int64_rem :: "int64 \<Rightarrow> int64 \<Rightarrow> int64" where
  "int64_rem a b = word_of_int (sint a smod sint b)"

definition TimerFD_Arm :: "zcall \<Rightarrow> TimerFD \<Rightarrow> int64 \<Rightarrow> int64 \<Rightarrow> trace \<Rightarrow> error option \<times> trace" where
  "TimerFD_Arm Z t initial interval h =
    (let raw = FD_Raw (t_fd t) in
     if raw <s 0 then (Some ErrClosed, h)
     else
       let newValue = \<lparr>it_interval = \<lparr>sec = int64_quo interval nanos_per_sec,
                                        nsec = int64_rem interval nanos_per_sec\<rparr>,
                       it_value = \<lparr>sec = int64_quo initial nanos_per_sec,
                                     nsec = int64_rem initial nanos_per_sec\<rparr>\<rparr>;
           (r, h') = invoke Z (SysTimerfdSettime (scast raw) 0 newValue) h in
       if errno r \<noteq> 0 then (errFromErrno Z (errno r), h')
       else (None, h'))"

definition TimerFD_ArmAt :: "zcall \<Rightarrow> TimerFD \<Rightarrow> int64 \<Rightarrow> int64 \<Rightarrow> trace \<Rightarrow> error option \<times> trace" where
  "TimerFD_ArmAt Z t deadline interval h =
    (let raw = FD_Raw (t_fd t) in
     if raw <s 0 then (Some ErrClosed, h)
     else
       let newValue = \<lparr>it_interval = \<lparr>sec = int64_quo interval nanos_per_sec,
                                        nsec = int64_rem interval nanos_per_sec\<rparr>,
                       it_value = \<lparr>sec = int64_quo deadline nanos_per_sec,
                                     nsec = int64_rem deadline nanos_per_sec\<rparr>\<rparr>;
           (r, h') = invoke Z (SysTimerfdSettime (scast raw) TFD_TIMER_ABSTIME newValue) h in
       if errno r \<noteq> 0 then (errFromErrno Z (errno r), h')
       else (None, h'))"

definition TimerFD_ArmDuration :: "zcall \<Rightarrow> TimerFD \<Rightarrow> int64 \<Rightarrow> int64 \<Rightarrow> trace \<Rightarrow> error option \<times> trace" where
  "TimerFD_ArmDuration Z t initial interval h = TimerFD_Arm Z t initial interval h"

definition TimerFD_Disarm :: "zcall \<Rightarrow> TimerFD \<Rightarrow> trace \<Rightarrow> error option \<times> trace" where
  "TimerFD_Disarm Z t h = TimerFD_Arm Z t 0 0 h"

definition TimerFD_Read :: "zcall \<Rightarrow> TimerFD \<Rightarrow> trace \<Rightarrow> uint64 \<times> error option \<times> trace" where
  "TimerFD_Read Z t h =
    (let raw = FD_Raw (t_fd t) in
     if raw <s 0 then (0, Some ErrClosed, h)
     else
       let buf = replicate 8 0;
           (r, h') = invoke Z (SysRead (scast raw) (length buf)) h in
       if errno r \<noteq> 0 then
         (if errno r = EAGAIN Z then (0, Some ErrWouldBlock, h')
          else (0, errFromErrno Z (errno r), h'))
       else if ret r \<noteq> 8 then (0, Some ErrInvalidParam, h')
       else (Uint64 (store (data r) buf), None, h'))"

definition TimerFD_ReadInto :: "zcall \<Rightarrow> TimerFD \<Rightarrow> byte list \<Rightarrow> trace \<Rightarrow> go_int \<times> error option \<times> byte list \<times> trace" where
  "TimerFD_ReadInto Z t buf h =
    (if length buf < 8 then (0, Some ErrInvalidParam, buf, h)
     else
       let raw = FD_Raw (t_fd t) in
       if raw <s 0 then (0, Some ErrClosed, buf, h)
       else
         let (r, h') = invoke Z (SysRead (scast raw) (length (take 8 buf))) h;
             buf' = store (data r) (take 8 buf) @ drop 8 buf in
         if errno r \<noteq> 0 then (ret r, errFromErrno Z (errno r), buf', h')
         else (ret r, None, buf', h'))"

definition TimerFD_GetTime :: "zcall \<Rightarrow> TimerFD \<Rightarrow> trace \<Rightarrow> int64 \<times> int64 \<times> error option \<times> trace" where
  "TimerFD_GetTime Z t h =
    (let raw = FD_Raw (t_fd t) in
     if raw <s 0 then (0, 0, Some ErrClosed, h)
     else
       let (r, h') = invoke Z (SysTimerfdGettime (scast raw)) h in
       if errno r \<noteq> 0 then (0, 0, errFromErrno Z (errno r), h')
       else
         let curr = curr_spec r;
             remaining = sec (it_value curr) * nanos_per_sec + nsec (it_value curr);
             interval = sec (it_interval curr) * nanos_per_sec + nsec (it_interval curr) in
         (remaining, interval, None, h'))"

section \<open>signalfd.go\<close>

type_synonym SigSet = uint64

record SignalFD =
  s_fd :: FD
  s_mask :: SigSet

definition signalInfoSize :: nat where "signalInfoSize = 128"
definition SFD_CLOEXEC :: uintptr where "SFD_CLOEXEC = 0x80000"
definition SFD_NONBLOCK :: uintptr where "SFD_NONBLOCK = 0x800"

text \<open>
  The methods of \<open>SigSet\<close>. The signal number is a Go \<open>int\<close>, compared as signed; the
  shifted constant \<open>1\<close> has the type of the set; the shift count \<open>sig - 1\<close> is in
  \<open>0..63\<close> where the shift is reached. \<open>Add\<close> and \<open>Del\<close> return the new set.
\<close>

definition SigSet_Add :: "SigSet \<Rightarrow> go_int \<Rightarrow> SigSet" where
  "SigSet_Add s sig =
    (if sig <s 1 \<or> 64 <s sig then s
     else s OR push_bit (unat (sig - 1)) 1)"

definition SigSet_Del :: "SigSet \<Rightarrow> go_int \<Rightarrow> SigSet" where
  "SigSet_Del s sig =
    (if sig <s 1 \<or> 64 <s sig then s
     else s AND NOT (push_bit (unat (sig - 1)) 1))"

definition SigSet_Has :: "SigSet \<Rightarrow> go_int \<Rightarrow> bool" where
  "SigSet_Has s sig =
    (if sig <s 1 \<or> 64 <s sig then False
     else s AND push_bit (unat (sig - 1)) 1 \<noteq> 0)"

definition SigSet_Empty :: "SigSet \<Rightarrow> bool" where
  "SigSet_Empty s = (s = 0)"

definition newSignalFD :: "zcall \<Rightarrow> SigSet \<Rightarrow> uintptr \<Rightarrow> trace \<Rightarrow> SignalFD option \<times> error option \<times> trace" where
  "newSignalFD Z sigmask flags h =
    (let (r, h') = invoke Z (SysSignalfd4 (NOT 0) sigmask 8 flags) h in
     if errno r \<noteq> 0 then (None, errFromErrno Z (errno r), h')
     else (Some \<lparr>s_fd = ucast (ret r), s_mask = sigmask\<rparr>, None, h'))"

definition NewSignalFD :: "zcall \<Rightarrow> SigSet \<Rightarrow> trace \<Rightarrow> SignalFD option \<times> error option \<times> trace" where
  "NewSignalFD Z sigmask h = newSignalFD Z sigmask (SFD_NONBLOCK OR SFD_CLOEXEC) h"

definition SignalFD_Fd :: "SignalFD \<Rightarrow> go_int" where
  "SignalFD_Fd s = FD_Fd (s_fd s)"

definition SignalFD_Close :: "zcall \<Rightarrow> SignalFD \<Rightarrow> trace \<Rightarrow> error option \<times> SignalFD \<times> trace" where
  "SignalFD_Close Z s h =
    (let (err, fd', h') = FD_Close Z (s_fd s) h in (err, s\<lparr>s_fd := fd'\<rparr>, h'))"

text \<open>
  \<open>Read\<close> returns the record as the 128 bytes the kernel stored over the zeroed
  \<open>SignalInfo\<close>, or \<open>None\<close> for the \<open>nil\<close> pointer.
\<close>

definition SignalFD_Read :: "zcall \<Rightarrow> SignalFD \<Rightarrow> trace \<Rightarrow> byte list option \<times> error option \<times> trace" where
  "SignalFD_Read Z s h =
    (let raw = FD_Raw (s_fd s) in
     if raw <s 0 then (None, Some ErrClosed, h)
     else
       let buf = replicate signalInfoSize 0;
           (r, h') = invoke Z (SysRead (scast raw) (length buf)) h in
       if errno r \<noteq> 0 then
         (if errno r = EAGAIN Z then (None, Some ErrWouldBlock, h')
          else (None, errFromErrno Z (errno r), h'))
       else if ret r \<noteq> of_nat signalInfoSize then (None, Some ErrInvalidParam, h')
       else (Some (store (data r) buf), None, h'))"

definition SignalFD_ReadInto :: "zcall \<Rightarrow> SignalFD \<Rightarrow> byte list \<Rightarrow> trace \<Rightarrow> go_int \<times> error option \<times> byte list \<times> trace" where
  "SignalFD_ReadInto Z s buf h =
    (if length buf < signalInfoSize then (0, Some ErrInvalidParam, buf, h)
     else
       let raw = FD_Raw (s_fd s) in
       if raw <s 0 then (0, Some ErrClosed, buf, h)
       else
         let (r, h') = invoke Z (SysRead (scast raw) (length (take signalInfoSize buf))) h;
             buf' = store (data r) (take signalInfoSize buf) @ drop signalInfoSize buf in
         if errno r \<noteq> 0 then (ret r, errFromErrno Z (errno r), buf', h')
         else (ret r, None, buf', h'))"

definition SignalFD_SetMask :: "zcall \<Rightarrow> SignalFD \<Rightarrow> SigSet \<Rightarrow> trace \<Rightarrow> error option \<times> SignalFD \<times> trace" where
  "SignalFD_SetMask Z s sigmask h =
    (let raw = FD_Raw (s_fd s) in
     if raw <s 0 then (Some ErrClosed, s, h)
     else
       let (r, h') = invoke Z (SysSignalfd4 (scast raw) sigmask 8 0) h in
       if errno r \<noteq> 0 then (errFromErrno Z (errno r), s, h')
       else (None, s\<lparr>s_mask := sigmask\<rparr>, h'))"

definition SignalFD_Mask :: "SignalFD \<Rightarrow> SigSet" where
  "SignalFD_Mask s = s_mask s"

section \<open>pidfd.go\<close>

record PidFD =
  p_fd :: FD
  p_pid :: go_int

definition PIDFD_NONBLOCK :: uintptr where "PIDFD_NONBLOCK = 0x800"

definition newPidFD :: "zcall \<Rightarrow> go_int \<Rightarrow> uintptr \<Rightarrow> trace \<Rightarrow> PidFD option \<times> error option \<times> trace" where
  "newPidFD Z pid flags h =
    (if pid \<le>s 0 then (None, Some ErrInvalidParam, h)
     else
       let (r, h') = invoke Z (SysPidfdOpen pid flags) h in
       if errno r \<noteq> 0 then (None, errFromErrno Z (errno r), h')
       else (Some \<lparr>p_fd = ucast (ret r), p_pid = pid\<rparr>, None, h'))"

definition NewPidFD :: "zcall \<Rightarrow> go_int \<Rightarrow> trace \<Rightarrow> PidFD option \<times> error option \<times> trace" where
  "NewPidFD Z pid h = newPidFD Z pid PIDFD_NONBLOCK h"

definition NewPidFDBlocking :: "zcall \<Rightarrow> go_int \<Rightarrow> trace \<Rightarrow> PidFD option \<times> error option \<times> trace" where
  "NewPidFDBlocking Z pid h = newPidFD Z pid 0 h"

definition PidFD_Fd :: "PidFD \<Rightarrow> go_int" where
  "PidFD_Fd p = FD_Fd (p_fd p)"

definition PidFD_Close :: "zcall \<Rightarrow> PidFD \<Rightarrow> trace \<Rightarrow> error option \<times> PidFD \<times> trace" where
  "PidFD_Close Z p h =
    (let (err, fd', h') = FD_Close Z (p_fd p) h in (err, p\<lparr>p_fd := fd'\<rparr>, h'))"

definition PidFD_PID :: "PidFD \<Rightarrow> go_int" where
  "PidFD_PID p = p_pid p"

definition PidFD_SendSignal :: "zcall \<Rightarrow> PidFD \<Rightarrow> go_int \<Rightarrow> trace \<Rightarrow> error option \<times> trace" where
  "PidFD_SendSignal Z p sig h =
    (let raw = FD_Raw (p_fd p) in
     if raw <s 0 then (Some ErrClosed, h)
     else
       let (r, h') = invoke Z (SysPidfdSendSignal (scast raw) sig) h in
       if errno r \<noteq> 0 then (errFromErrno Z (errno r), h')
       else (None, h'))"

definition PidFD_GetFD :: "zcall \<Rightarrow> PidFD \<Rightarrow> go_int \<Rightarrow> trace \<Rightarrow> FD \<times> error option \<times> trace" where
  "PidFD_GetFD Z p targetFD h =
    (let raw = FD_Raw (p_fd p) in
     if raw <s 0 then (InvalidFD, Some ErrClosed, h)
     else
       let (r, h') = invoke Z (SysPidfdGetfd (scast raw) targetFD 0) h in
       if errno r \<noteq> 0 then (InvalidFD, errFromErrno Z (errno r), h')
       else (ucast (ret r), None, h'))"

definition PidFD_Valid :: "PidFD \<Rightarrow> bool" where
  "PidFD_Valid p = FD_Valid (p_fd p)"

section \<open>memfd.go\<close>

text \<open>The name is the bytes of the Go string.\<close>

record MemFD =
  m_fd :: FD
  m_name :: "byte list"

definition MFD_CLOEXEC :: uintptr where "MFD_CLOEXEC = 0x1"
definition MFD_ALLOW_SEALING :: uintptr where "MFD_ALLOW_SEALING = 0x2"
definition MFD_HUGETLB :: uintptr where "MFD_HUGETLB = 0x4"
definition F_ADD_SEALS :: uintptr where "F_ADD_SEALS = 1033"
definition F_GET_SEALS :: uintptr where "F_GET_SEALS = 1034"

definition newMemFD :: "zcall \<Rightarrow> byte list \<Rightarrow> uintptr \<Rightarrow> trace \<Rightarrow> MemFD option \<times> error option \<times> trace" where
  "newMemFD Z name flags h =
    (let nameBytes = name @ [0];
         (r, h') = invoke Z (SysMemfdCreate nameBytes flags) h in
     if errno r \<noteq> 0 then (None, errFromErrno Z (errno r), h')
     else (Some \<lparr>m_fd = ucast (ret r), m_name = name\<rparr>, None, h'))"

definition NewMemFD :: "zcall \<Rightarrow> byte list \<Rightarrow> trace \<Rightarrow> MemFD option \<times> error option \<times> trace" where
  "NewMemFD Z name h = newMemFD Z name MFD_CLOEXEC h"

definition NewMemFDSealed :: "zcall \<Rightarrow> byte list \<Rightarrow> trace \<Rightarrow> MemFD option \<times> error option \<times> trace" where
  "NewMemFDSealed Z name h = newMemFD Z name (MFD_CLOEXEC OR MFD_ALLOW_SEALING) h"

definition NewMemFDHugeTLB :: "zcall \<Rightarrow> byte list \<Rightarrow> trace \<Rightarrow> MemFD option \<times> error option \<times> trace" where
  "NewMemFDHugeTLB Z name h = newMemFD Z name (MFD_CLOEXEC OR MFD_HUGETLB) h"

definition MemFD_Fd :: "MemFD \<Rightarrow> go_int" where
  "MemFD_Fd m = FD_Fd (m_fd m)"

definition MemFD_Close :: "zcall \<Rightarrow> MemFD \<Rightarrow> trace \<Rightarrow> error option \<times> MemFD \<times> trace" where
  "MemFD_Close Z m h =
    (let (err, fd', h') = FD_Close Z (m_fd m) h in (err, m\<lparr>m_fd := fd'\<rparr>, h'))"

definition MemFD_Name :: "MemFD \<Rightarrow> byte list" where
  "MemFD_Name m = m_name m"

definition MemFD_Read :: "zcall \<Rightarrow> MemFD \<Rightarrow> byte list \<Rightarrow> trace \<Rightarrow> go_int \<times> error option \<times> byte list \<times> trace" where
  "MemFD_Read Z m p h = FD_Read Z (m_fd m) p h"

definition MemFD_Write :: "zcall \<Rightarrow> MemFD \<Rightarrow> byte list \<Rightarrow> trace \<Rightarrow> go_int \<times> error option \<times> trace" where
  "MemFD_Write Z m p h = FD_Write Z (m_fd m) p h"

definition MemFD_Truncate :: "zcall \<Rightarrow> MemFD \<Rightarrow> int64 \<Rightarrow> trace \<Rightarrow> error option \<times> trace" where
  "MemFD_Truncate Z m sz h =
    (let raw = FD_Raw (m_fd m) in
     if raw <s 0 then (Some ErrClosed, h)
     else
       let (r, h') = invoke Z (SysSyscall4 (SYS_FTRUNCATE Z) (scast raw) sz 0 0) h in
       if errno r \<noteq> 0 then (errFromErrno Z (errno r), h')
       else (None, h'))"

definition MemFD_Size :: "zcall \<Rightarrow> MemFD \<Rightarrow> trace \<Rightarrow> int64 \<times> error option \<times> trace" where
  "MemFD_Size Z m h =
    (let raw = FD_Raw (m_fd m) in
     if raw <s 0 then (0, Some ErrClosed, h)
     else
       let (r, h') = invoke Z (SysSyscall4 (SYS_FSTAT Z) (scast raw) 0 0 0) h in
       if errno r \<noteq> 0 then (0, errFromErrno Z (errno r), h')
       else (st_size r, None, h'))"

definition MemFD_Seal :: "zcall \<Rightarrow> MemFD \<Rightarrow> uint64 \<Rightarrow> trace \<Rightarrow> error option \<times> trace" where
  "MemFD_Seal Z m seals h =
    (let raw = FD_Raw (m_fd m) in
     if raw <s 0 then (Some ErrClosed, h)
     else
       let (r, h') = invoke Z (SysSyscall4 SYS_FCNTL (scast raw) F_ADD_SEALS seals 0) h in
       if errno r \<noteq> 0 then (errFromErrno Z (errno r), h')
       else (None, h'))"

definition MemFD_Seals :: "zcall \<Rightarrow> MemFD \<Rightarrow> trace \<Rightarrow> uint64 \<times> error option \<times> trace" where
  "MemFD_Seals Z m h =
    (let raw = FD_Raw (m_fd m) in
     if raw <s 0 then (0, Some ErrClosed, h)
     else
       let (r, h') = invoke Z (SysSyscall4 SYS_FCNTL (scast raw) F_GET_SEALS 0 0) h in
       if errno r \<noteq> 0 then (0, errFromErrno Z (errno r), h')
       else (ret r, None, h'))"

definition MemFD_Valid :: "MemFD \<Rightarrow> bool" where
  "MemFD_Valid m = FD_Valid (m_fd m)"

section \<open>A concrete platform\<close>

text \<open>
  The Linux values of the errno constants and syscall numbers, over a kernel that
  answers every call with the same reply \<open>r\<close>.
\<close>

definition zero_spec :: itimerspec where
  "zero_spec = \<lparr>it_interval = \<lparr>sec = 0, nsec = 0\<rparr>, it_value = \<lparr>sec = 0, nsec = 0\<rparr>\<rparr>"

definition answer :: "uintptr \<Rightarrow> uintptr \<Rightarrow> reply" where
  "answer n e = \<lparr>ret = n, errno = e, data = [], curr_spec = zero_spec, st_size = 0\<rparr>"

definition linux :: "reply \<Rightarrow> zcall" where
  "linux r = \<lparr>EAGAIN = 11, EBADF = 9, EINVAL = 22, EINTR = 4, ENOMEM = 12,
              EACCES = 13, EPERM = 1, SYS_FTRUNCATE = 77, SYS_FSTAT = 5,
              kernel = (\<lambda>h c. r)\<rparr>"

text \<open>
  The errno constants as the \<open>switch\<close> of \<open>errFromErrno\<close> needs them: pairwise
  different where they select different errors (the compiler rejects duplicate
  cases), and none of them zero.
\<close>

definition errnos_ok :: "zcall \<Rightarrow> bool" where
  "errnos_ok Z =
    (distinct [0, EAGAIN Z, EBADF Z, EINVAL Z, EINTR Z, ENOMEM Z, EACCES Z]
     \<and> distinct [0, EAGAIN Z, EBADF Z, EINVAL Z, EINTR Z, ENOMEM Z, EPERM Z])"

section \<open>Helper facts\<close>

lemma errnos_ok_linux: "errnos_ok (linux r)"
  by (simp add: errnos_ok_def linux_def)

lemma minus_one_negative: "(- 1 :: int32) <s 0"
  by (simp add: word_sless_alt)

lemma FD_Close_slot: "fst (snd (FD_Close Z fd h)) = - 1"
  by (simp add: FD_Close_def Let_def split: prod.splits)

lemma FD_Close_closed: "fd <s 0 \<Longrightarrow> FD_Close Z fd h = (None, - 1, h)"
  by (simp add: FD_Close_def Let_def)

lemma FD_Close_open:
  "\<not> fd <s 0 \<Longrightarrow> snd (snd (FD_Close Z fd h)) = h @ [SysClose (scast fd)]"
  by (simp add: FD_Close_def Let_def invoke_def split: prod.splits)

lemma FD_step_closed: "fst (FD_step Z op (- 1, h)) = - 1"
  by (cases op) (simp_all add: FD_Close_slot)

lemma FD_run_closed: "fst (FD_run Z ops (- 1, h)) = - 1"
proof (induction ops arbitrary: h)
  case Nil
  show ?case by simp
next
  case (Cons op ops)
  obtain h' where "FD_step Z op (- 1, h) = (- 1, h')"
    using FD_step_closed [of Z op h] by (cases "FD_step Z op (- 1, h)") simp
  then show ?case using Cons.IH by simp
qed

lemma quo_rem_zero:
  "int64_quo 0 nanos_per_sec = 0" "int64_rem 0 nanos_per_sec = 0"
  by (simp_all add: int64_quo_def int64_rem_def)

lemma has_bit: "n < 64 \<Longrightarrow> ((s :: 64 word) AND push_bit n 1 \<noteq> 0) = bit s n"
proof -
  assume n: "n < 64"
  have "s AND push_bit n 1 = 0" if "\<not> bit s n"
    by (rule bit_word_eqI) (use that in \<open>auto simp: bit_simps\<close>)
  moreover have "s AND push_bit n 1 \<noteq> 0" if "bit s n"
  proof -
    have "bit (s AND push_bit n 1) n" using that n by (simp add: bit_simps)
    then show ?thesis by auto
  qed
  ultimately show ?thesis by blast
qed

lemma in_range_index:
  fixes sig :: "64 word"
  assumes "\<not> (sig <s 1 \<or> 64 <s sig)"
  shows "unat (sig - 1) < 64" and "sint sig = int (unat (sig - 1)) + 1"
proof -
  have r: "1 \<le> sint sig" "sint sig \<le> 64"
    using assms by (simp_all add: word_sless_alt not_less)
  have u: "uint sig = sint sig"
    using r by (simp add: uint_sint take_bit_int_eq_self)
  have nz: "sig \<noteq> 0" using r by auto
  have m: "unat (sig - 1) = unat sig - 1"
    using nz by (rule unat_minus_one)
  have un: "int (unat sig) = sint sig" using u by simp
  show "unat (sig - 1) < 64" using m un r by linarith
  show "sint sig = int (unat (sig - 1)) + 1" using m un r by linarith
qed

lemma index_inj:
  fixes a b :: "64 word"
  assumes "\<not> (a <s 1 \<or> 64 <s a)" "\<not> (b <s 1 \<or> 64 <s b)" "unat (a - 1) = unat (b - 1)"
  shows "a = b"
proof -
  have "sint a = sint b"
    using in_range_index(2) [OF assms(1)] in_range_index(2) [OF assms(2)] assms(3) by simp
  then show ?thesis by (rule signed_word_eqI)
qed

lemma Has_in_range:
  assumes "\<not> (sig <s 1 \<or> 64 <s sig)"
  shows "SigSet_Has s sig = bit s (unat (sig - 1))"
proof -
  have "SigSet_Has s sig = (s AND push_bit (unat (sig - 1)) 1 \<noteq> 0)"
    using assms by (simp only: SigSet_Has_def if_False)
  then show ?thesis
    by (simp only: has_bit [OF in_range_index(1) [OF assms]])
qed

lemma Add_bit:
  "\<not> (sig <s 1 \<or> 64 <s sig) \<Longrightarrow> k < 64 \<Longrightarrow>
     bit (SigSet_Add s sig) k = (bit s k \<or> k = unat (sig - 1))"
  by (auto simp: SigSet_Add_def bit_simps)

lemma Del_bit:
  "\<not> (sig <s 1 \<or> 64 <s sig) \<Longrightarrow> k < 64 \<Longrightarrow>
     bit (SigSet_Del s sig) k = (bit s k \<and> k \<noteq> unat (sig - 1))"
  by (auto simp: SigSet_Del_def bit_simps)

lemma closed_after_Close:
  "e_fd (fst (snd (EventFD_Close Z e h))) = - 1"
  "t_fd (fst (snd (TimerFD_Close Z t h))) = - 1"
  "s_fd (fst (snd (SignalFD_Close Z s h))) = - 1"
  "p_fd (fst (snd (PidFD_Close Z p h))) = - 1"
  "m_fd (fst (snd (MemFD_Close Z m h))) = - 1"
  using FD_Close_slot [of Z "e_fd e" h] FD_Close_slot [of Z "t_fd t" h]
    FD_Close_slot [of Z "s_fd s" h] FD_Close_slot [of Z "p_fd p" h]
    FD_Close_slot [of Z "m_fd m" h]
  by (auto simp: EventFD_Close_def TimerFD_Close_def SignalFD_Close_def PidFD_Close_def
      MemFD_Close_def split: prod.splits)

lemma FD_closed_ops:
  assumes "fd <s 0"
  shows "buf \<noteq> [] \<Longrightarrow> FD_Read Z fd buf h = (0, Some ErrClosed, buf, h)"
    and "buf \<noteq> [] \<Longrightarrow> FD_Write Z fd buf h = (0, Some ErrClosed, h)"
    and "FD_SetNonblock Z fd b h = (Some ErrClosed, h)"
    and "FD_SetCloexec Z fd b h = (Some ErrClosed, h)"
    and "FD_Dup Z fd h = (InvalidFD, Some ErrClosed, h)"
  using assms
  by (simp_all add: FD_Read_def FD_Write_def FD_SetNonblock_def FD_SetCloexec_def FD_Dup_def
      FD_Raw_def)

lemma EventFD_closed_ops:
  assumes "e_fd e <s 0"
  shows "val \<noteq> 0 \<Longrightarrow> EventFD_Signal Z e val h = (Some ErrClosed, h)"
    and "EventFD_Wait Z e h = (0, Some ErrClosed, h)"
    and "8 \<le> length buf \<Longrightarrow> EventFD_Read Z e buf h = (0, Some ErrClosed, buf, h)"
    and "8 \<le> length buf \<Longrightarrow> EventFD_Write Z e buf h = (0, Some ErrClosed, h)"
  using assms
  by (simp_all add: EventFD_Signal_def EventFD_Wait_def EventFD_Read_def EventFD_Write_def
      FD_Raw_def)

lemma TimerFD_closed_ops:
  assumes "t_fd t <s 0"
  shows "TimerFD_Arm Z t a b h = (Some ErrClosed, h)"
    and "TimerFD_ArmAt Z t a b h = (Some ErrClosed, h)"
    and "TimerFD_ArmDuration Z t a b h = (Some ErrClosed, h)"
    and "TimerFD_Disarm Z t h = (Some ErrClosed, h)"
    and "TimerFD_Read Z t h = (0, Some ErrClosed, h)"
    and "8 \<le> length buf \<Longrightarrow> TimerFD_ReadInto Z t buf h = (0, Some ErrClosed, buf, h)"
    and "TimerFD_GetTime Z t h = (0, 0, Some ErrClosed, h)"
  using assms
  by (simp_all add: TimerFD_Arm_def TimerFD_ArmAt_def TimerFD_ArmDuration_def TimerFD_Disarm_def
      TimerFD_Read_def TimerFD_ReadInto_def TimerFD_GetTime_def FD_Raw_def)

lemma SignalFD_closed_ops:
  assumes "s_fd s <s 0"
  shows "SignalFD_Read Z s h = (None, Some ErrClosed, h)"
    and "128 \<le> length buf \<Longrightarrow> SignalFD_ReadInto Z s buf h = (0, Some ErrClosed, buf, h)"
    and "SignalFD_SetMask Z s m h = (Some ErrClosed, s, h)"
  using assms
  by (simp_all add: SignalFD_Read_def SignalFD_ReadInto_def SignalFD_SetMask_def
      signalInfoSize_def FD_Raw_def)

lemma PidFD_closed_ops:
  assumes "p_fd p <s 0"
  shows "PidFD_SendSignal Z p sig h = (Some ErrClosed, h)"
    and "PidFD_GetFD Z p target h = (InvalidFD, Some ErrClosed, h)"
  using assms
  by (simp_all add: PidFD_SendSignal_def PidFD_GetFD_def FD_Raw_def)

lemma MemFD_closed_ops:
  assumes "m_fd m <s 0"
  shows "buf \<noteq> [] \<Longrightarrow> MemFD_Read Z m buf h = (0, Some ErrClosed, buf, h)"
    and "buf \<noteq> [] \<Longrightarrow> MemFD_Write Z m buf h = (0, Some ErrClosed, h)"
    and "MemFD_Truncate Z m sz h = (Some ErrClosed, h)"
    and "MemFD_Size Z m h = (0, Some ErrClosed, h)"
    and "MemFD_Seal Z m seals h = (Some ErrClosed, h)"
    and "MemFD_Seals Z m h = (0, Some ErrClosed, h)"
  using assms
  by (simp_all add: MemFD_Read_def MemFD_Write_def MemFD_Truncate_def MemFD_Size_def
      MemFD_Seal_def MemFD_Seals_def FD_closed_ops FD_Raw_def)

lemma argument_guards_first:
  "EventFD_Signal Z e 0 h = (None, h)"
  "FD_Read Z fd [] h = (0, None, [], h)"
  "FD_Write Z fd [] h = (0, None, h)"
  "MemFD_Read Z m [] h = (0, None, [], h)"
  "MemFD_Write Z m [] h = (0, None, h)"
  "length buf < 8 \<Longrightarrow> EventFD_Read Z e buf h = (0, Some ErrInvalidParam, buf, h)"
  "length buf < 8 \<Longrightarrow> EventFD_Write Z e buf h = (0, Some ErrInvalidParam, h)"
  "length buf < 8 \<Longrightarrow> TimerFD_ReadInto Z t buf h = (0, Some ErrInvalidParam, buf, h)"
  "length buf < 128 \<Longrightarrow> SignalFD_ReadInto Z s buf h = (0, Some ErrInvalidParam, buf, h)"
  by (simp_all add: EventFD_Signal_def FD_Read_def FD_Write_def MemFD_Read_def MemFD_Write_def
      EventFD_Read_def EventFD_Write_def TimerFD_ReadInto_def SignalFD_ReadInto_def
      signalInfoSize_def)

section \<open>The descriptor is closed once\<close>

text \<open>
  Claim C1. \<open>Close\<close> leaves \<open>-1\<close> in the slot whatever it held. When the slot held a
  descriptor, the one kernel call made is the release of the value that was captured;
  when it already held \<open>-1\<close>, \<open>Close\<close> returns \<open>nil\<close> and makes no kernel call. So after
  any \<open>Close\<close>, \<open>Raw\<close> is \<open>-1\<close>, every later \<open>Close\<close> (after whatever happened in between,
  at any trace \<open>h'\<close>) returns \<open>nil\<close> and leaves the trace as it was, and no sequence of
  operations on the descriptor brings the slot back to a non-negative value.
\<close>

theorem FD_Close_once:
  "fst (snd (FD_Close Z fd h)) = - 1
   \<and> (\<not> fd <s 0 \<longrightarrow> snd (snd (FD_Close Z fd h)) = h @ [SysClose (scast fd)])
   \<and> (fd = - 1 \<longrightarrow> FD_Close Z fd h = (None, - 1, h))
   \<and> FD_Raw (fst (snd (FD_Close Z fd h))) = - 1
   \<and> FD_Close Z (fst (snd (FD_Close Z fd h))) h' = (None, - 1, h')
   \<and> fst (FD_run Z ops (- 1, h')) = - 1
   \<and> \<not> 0 \<le>s FD_Raw (fst (FD_run Z ops (fst (snd (FD_Close Z fd h)), h')))"
  using minus_one_negative
  by (simp add: FD_Close_slot FD_Close_closed FD_Close_open FD_run_closed FD_Raw_def)

theorem FD_Close_once_witness:
  "snd (snd (FD_Close (linux (answer 0 0)) 3 [])) = [SysClose 3]
   \<and> FD_Close (linux (answer 0 0)) (- 1) [SysClose 3] = (None, - 1, [SysClose 3])
   \<and> fst (FD_run (linux (answer 0 0)) [OpDup, OpRead [0], OpClose] (- 1, [SysClose 3])) = - 1"
  using FD_Close_once [of "linux (answer 0 0)" 3 "[]" "[SysClose 3]" "[OpDup, OpRead [0], OpClose]"]
    FD_Close_once [of "linux (answer 0 0)" "- 1" "[SysClose 3]" "[]" "[]"]
  by (simp add: word_sless_alt)

section \<open>The error translator\<close>

text \<open>
  Claim C3. \<open>errFromErrno\<close> depends on the errno alone, with the fixed table: \<open>0\<close> is
  \<open>nil\<close>, \<open>EAGAIN\<close> is \<open>ErrWouldBlock\<close>, \<open>EBADF\<close> is \<open>ErrClosed\<close>, \<open>EINVAL\<close> is
  \<open>ErrInvalidParam\<close>, \<open>EINTR\<close> is \<open>ErrInterrupted\<close>, \<open>ENOMEM\<close> is \<open>ErrNoMemory\<close>, \<open>EACCES\<close>
  and \<open>EPERM\<close> are \<open>ErrPermission\<close>, and every other code comes back as the raw errno.
  The constants are those of \<open>zcall\<close>, any values that are non-zero and distinct.
\<close>

theorem errFromErrno_mapping:
  "errnos_ok Z \<Longrightarrow>
     errFromErrno Z 0 = None
   \<and> errFromErrno Z (EAGAIN Z) = Some ErrWouldBlock
   \<and> errFromErrno Z (EBADF Z) = Some ErrClosed
   \<and> errFromErrno Z (EINVAL Z) = Some ErrInvalidParam
   \<and> errFromErrno Z (EINTR Z) = Some ErrInterrupted
   \<and> errFromErrno Z (ENOMEM Z) = Some ErrNoMemory
   \<and> errFromErrno Z (EACCES Z) = Some ErrPermission
   \<and> errFromErrno Z (EPERM Z) = Some ErrPermission
   \<and> (e \<notin> {0, EAGAIN Z, EBADF Z, EINVAL Z, EINTR Z, ENOMEM Z, EACCES Z, EPERM Z}
        \<longrightarrow> errFromErrno Z e = Some (Errno e))"
  by (auto simp: errFromErrno_def errnos_ok_def)

theorem errFromErrno_mapping_witness:
  "errnos_ok (linux (answer 0 0))
   \<and> errFromErrno (linux (answer 0 0)) 0 = None
   \<and> errFromErrno (linux (answer 0 0)) 11 = Some ErrWouldBlock
   \<and> errFromErrno (linux (answer 0 0)) 9 = Some ErrClosed
   \<and> errFromErrno (linux (answer 0 0)) 22 = Some ErrInvalidParam
   \<and> errFromErrno (linux (answer 0 0)) 4 = Some ErrInterrupted
   \<and> errFromErrno (linux (answer 0 0)) 12 = Some ErrNoMemory
   \<and> errFromErrno (linux (answer 0 0)) 13 = Some ErrPermission
   \<and> errFromErrno (linux (answer 0 0)) 1 = Some ErrPermission
   \<and> errFromErrno (linux (answer 0 0)) 28 = Some (Errno 28)"
  using errFromErrno_mapping [of "linux (answer 0 0)" 28]
  by (simp add: errnos_ok_def linux_def)

section \<open>Short transfers and undersized buffers\<close>

text \<open>
  Claim C4. On an open \<open>EventFD\<close> or \<open>SignalFD\<close>, when the kernel's read or write
  reports no error and a count below the record size (8 bytes for \<open>Signal\<close> and
  \<open>Wait\<close>, 128 bytes for \<open>SignalFD.Read\<close>), the operation returns \<open>ErrInvalidParam\<close> and
  no value.
\<close>

theorem short_transfer_invalid:
  "(val \<noteq> 0 \<and> \<not> FD_Raw (e_fd e) <s 0
      \<and> errno (kernel Z h (SysWrite (scast (FD_Raw (e_fd e))) (PutUint64 val))) = 0
      \<and> ret (kernel Z h (SysWrite (scast (FD_Raw (e_fd e))) (PutUint64 val))) < 8
     \<longrightarrow> fst (EventFD_Signal Z e val h) = Some ErrInvalidParam)
   \<and> (\<not> FD_Raw (e_fd e) <s 0
      \<and> errno (kernel Z h (SysRead (scast (FD_Raw (e_fd e))) 8)) = 0
      \<and> ret (kernel Z h (SysRead (scast (FD_Raw (e_fd e))) 8)) < 8
     \<longrightarrow> fst (EventFD_Wait Z e h) = 0 \<and> fst (snd (EventFD_Wait Z e h)) = Some ErrInvalidParam)
   \<and> (\<not> FD_Raw (s_fd s) <s 0
      \<and> errno (kernel Z h (SysRead (scast (FD_Raw (s_fd s))) 128)) = 0
      \<and> ret (kernel Z h (SysRead (scast (FD_Raw (s_fd s))) 128)) < 128
     \<longrightarrow> fst (SignalFD_Read Z s h) = None \<and> fst (snd (SignalFD_Read Z s h)) = Some ErrInvalidParam)"
  by (auto simp: EventFD_Signal_def EventFD_Wait_def SignalFD_Read_def signalInfoSize_def
      invoke_def Let_def)

theorem short_transfer_invalid_witness:
  "fst (EventFD_Signal (linux (answer 3 0)) \<lparr>e_fd = 5\<rparr> 1 []) = Some ErrInvalidParam
   \<and> fst (snd (EventFD_Wait (linux (answer 3 0)) \<lparr>e_fd = 5\<rparr> [])) = Some ErrInvalidParam
   \<and> fst (snd (SignalFD_Read (linux (answer 3 0)) \<lparr>s_fd = 5, s_mask = 0\<rparr> [])) = Some ErrInvalidParam"
  using short_transfer_invalid [of 1 "\<lparr>e_fd = 5\<rparr>" "linux (answer 3 0)" "[]" "\<lparr>s_fd = 5, s_mask = 0\<rparr>"]
  by (simp add: linux_def answer_def FD_Raw_def word_sless_alt)

text \<open>
  Claim C5. A buffer shorter than the record (128 bytes for \<open>SignalFD.ReadInto\<close>, 8
  bytes for \<open>TimerFD.ReadInto\<close> and \<open>EventFD.Read\<close>) is refused with \<open>ErrInvalidParam\<close>,
  the buffer and the trace untouched, whether the handle is open or closed.
\<close>

theorem undersized_buffer_invalid:
  "(length p < 128 \<longrightarrow> SignalFD_ReadInto Z s p h = (0, Some ErrInvalidParam, p, h))
   \<and> (length p < 8 \<longrightarrow> TimerFD_ReadInto Z t p h = (0, Some ErrInvalidParam, p, h))
   \<and> (length p < 8 \<longrightarrow> EventFD_Read Z e p h = (0, Some ErrInvalidParam, p, h))"
  by (simp add: SignalFD_ReadInto_def TimerFD_ReadInto_def EventFD_Read_def signalInfoSize_def)

theorem undersized_buffer_invalid_witness:
  "SignalFD_ReadInto (linux (answer 0 0)) \<lparr>s_fd = - 1, s_mask = 0\<rparr> [1, 2, 3] []
     = (0, Some ErrInvalidParam, [1, 2, 3], [])
   \<and> TimerFD_ReadInto (linux (answer 0 0)) \<lparr>t_fd = 4\<rparr> [1, 2, 3] []
     = (0, Some ErrInvalidParam, [1, 2, 3], [])
   \<and> EventFD_Read (linux (answer 0 0)) \<lparr>e_fd = - 1\<rparr> [1, 2, 3] []
     = (0, Some ErrInvalidParam, [1, 2, 3], [])"
  using undersized_buffer_invalid [of "[1, 2, 3]" "linux (answer 0 0)"
      "\<lparr>s_fd = - 1, s_mask = 0\<rparr>" "[]" "\<lparr>t_fd = 4\<rparr>" "\<lparr>e_fd = - 1\<rparr>"]
  by simp

section \<open>No-op successes\<close>

text \<open>
  Claim C6. \<open>Signal(0)\<close> returns \<open>nil\<close> on every \<open>EventFD\<close>, open or closed, and leaves
  the trace as it was: no kernel call is made, so the kernel's counter is untouched.
\<close>

theorem EventFD_Signal_zero: "EventFD_Signal Z e 0 h = (None, h)"
  by (simp add: EventFD_Signal_def)

text \<open>
  Claim C7. \<open>FD.Read\<close> and \<open>FD.Write\<close> on a zero-length buffer return \<open>(0, nil)\<close> and
  leave the trace as it was.
\<close>

theorem FD_empty_buffer:
  "FD_Read Z fd [] h = (0, None, [], h) \<and> FD_Write Z fd [] h = (0, None, h)"
  by (simp add: FD_Read_def FD_Write_def)

section \<open>The timer\<close>

text \<open>
  Claim C8. \<open>Disarm\<close> is \<open>Arm(0, 0)\<close>: the same error and the same trace, in every
  state. On a closed timer nothing is called; on an open one the single call is
  \<open>timerfd_settime\<close> with relative flags and the all-zero specification.
\<close>

theorem Disarm_is_Arm_zero:
  "TimerFD_Disarm Z t h = TimerFD_Arm Z t 0 0 h
   \<and> snd (TimerFD_Disarm Z t h) =
       (if FD_Raw (t_fd t) <s 0 then h
        else h @ [SysTimerfdSettime (scast (FD_Raw (t_fd t))) 0 zero_spec])"
  by (simp add: TimerFD_Disarm_def TimerFD_Arm_def quo_rem_zero zero_spec_def invoke_def Let_def)

section \<open>The signal mask\<close>

text \<open>
  Claim C10. \<open>SetMask\<close> on an open \<open>SignalFD\<close>: when the kernel call fails, \<open>Mask\<close>
  afterwards is what it was before; when it succeeds, \<open>Mask\<close> afterwards is the mask
  that was passed. On a closed handle the cache is unchanged. In every case the mask
  afterwards is the old one or the new one, and the error is \<open>nil\<close> exactly when the
  new one was stored.
\<close>

theorem SetMask_atomic:
  "(\<not> FD_Raw (s_fd s) <s 0
      \<and> errno (kernel Z h (SysSignalfd4 (scast (FD_Raw (s_fd s))) m 8 0)) \<noteq> 0
     \<longrightarrow> SignalFD_Mask (fst (snd (SignalFD_SetMask Z s m h))) = SignalFD_Mask s
         \<and> fst (SignalFD_SetMask Z s m h) \<noteq> None)
   \<and> (\<not> FD_Raw (s_fd s) <s 0
      \<and> errno (kernel Z h (SysSignalfd4 (scast (FD_Raw (s_fd s))) m 8 0)) = 0
     \<longrightarrow> SignalFD_Mask (fst (snd (SignalFD_SetMask Z s m h))) = m
         \<and> fst (SignalFD_SetMask Z s m h) = None)
   \<and> (FD_Raw (s_fd s) <s 0 \<longrightarrow> SignalFD_SetMask Z s m h = (Some ErrClosed, s, h))
   \<and> SignalFD_Mask (fst (snd (SignalFD_SetMask Z s m h))) =
       (if fst (SignalFD_SetMask Z s m h) = None then m else SignalFD_Mask s)"
  by (auto simp: SignalFD_SetMask_def SignalFD_Mask_def invoke_def Let_def errFromErrno_def)

theorem SetMask_atomic_witness:
  "SignalFD_Mask (fst (snd (SignalFD_SetMask (linux (answer 0 22)) \<lparr>s_fd = 5, s_mask = 1\<rparr> 6 []))) = 1
   \<and> SignalFD_Mask (fst (snd (SignalFD_SetMask (linux (answer 0 0)) \<lparr>s_fd = 5, s_mask = 1\<rparr> 6 []))) = 6
   \<and> SignalFD_SetMask (linux (answer 0 0)) \<lparr>s_fd = - 1, s_mask = 1\<rparr> 6 []
       = (Some ErrClosed, \<lparr>s_fd = - 1, s_mask = 1\<rparr>, [])"
  using SetMask_atomic [of "\<lparr>s_fd = 5, s_mask = 1\<rparr>" "linux (answer 0 22)" "[]" 6]
    SetMask_atomic [of "\<lparr>s_fd = 5, s_mask = 1\<rparr>" "linux (answer 0 0)" "[]" 6]
    SetMask_atomic [of "\<lparr>s_fd = - 1, s_mask = 1\<rparr>" "linux (answer 0 0)" "[]" 6]
  by (simp add: linux_def answer_def FD_Raw_def SignalFD_Mask_def word_sless_alt)

section \<open>The signal set\<close>

text \<open>
  Claim C9. For a signal number outside \<open>1..64\<close>, \<open>Add\<close> and \<open>Del\<close> return the set as it
  was and \<open>Has\<close> is false; no operation has an error result. For a number inside
  \<open>1..64\<close>, \<open>Has\<close> is true after \<open>Add\<close> and false after \<open>Del\<close>, and \<open>Has\<close> of every other
  number is what it was.
\<close>

theorem SigSet_membership:
  "(sig <s 1 \<or> 64 <s sig \<longrightarrow>
      SigSet_Add s sig = s \<and> SigSet_Del s sig = s \<and> \<not> SigSet_Has s sig)
   \<and> (\<not> (sig <s 1 \<or> 64 <s sig) \<longrightarrow>
      SigSet_Has (SigSet_Add s sig) sig \<and> \<not> SigSet_Has (SigSet_Del s sig) sig
      \<and> (\<forall>other. other \<noteq> sig \<longrightarrow>
            SigSet_Has (SigSet_Add s sig) other = SigSet_Has s other
          \<and> SigSet_Has (SigSet_Del s sig) other = SigSet_Has s other))"
proof (intro conjI impI allI)
  assume "sig <s 1 \<or> 64 <s sig"
  then show "SigSet_Add s sig = s" "SigSet_Del s sig = s" "\<not> SigSet_Has s sig"
    by (simp_all add: SigSet_Add_def SigSet_Del_def SigSet_Has_def)
next
  assume r: "\<not> (sig <s 1 \<or> 64 <s sig)"
  note n = in_range_index(1) [OF r]
  show "SigSet_Has (SigSet_Add s sig) sig"
    by (simp add: Has_in_range [OF r] Add_bit [OF r n])
  show "\<not> SigSet_Has (SigSet_Del s sig) sig"
    by (simp add: Has_in_range [OF r] Del_bit [OF r n])
next
  fix other
  assume r: "\<not> (sig <s 1 \<or> 64 <s sig)" and d: "other \<noteq> sig"
  show "SigSet_Has (SigSet_Add s sig) other = SigSet_Has s other"
  proof (cases "other <s 1 \<or> 64 <s other")
    case True
    then show ?thesis by (simp add: SigSet_Has_def)
  next
    case False
    have "unat (other - 1) \<noteq> unat (sig - 1)" using index_inj [OF False r] d by blast
    then show ?thesis
      by (simp add: Has_in_range [OF False] Add_bit [OF r in_range_index(1) [OF False]])
  qed
  show "SigSet_Has (SigSet_Del s sig) other = SigSet_Has s other"
  proof (cases "other <s 1 \<or> 64 <s other")
    case True
    then show ?thesis by (simp add: SigSet_Has_def)
  next
    case False
    have "unat (other - 1) \<noteq> unat (sig - 1)" using index_inj [OF False r] d by blast
    then show ?thesis
      by (simp add: Has_in_range [OF False] Del_bit [OF r in_range_index(1) [OF False]])
  qed
qed

theorem SigSet_membership_witness:
  "SigSet_Add 5 0 = 5 \<and> SigSet_Del 5 65 = 5 \<and> \<not> SigSet_Has 5 (- 1)
   \<and> SigSet_Has (SigSet_Add 5 2) 2 \<and> \<not> SigSet_Has (SigSet_Del 5 3) 3
   \<and> SigSet_Has (SigSet_Add 5 2) 64 = SigSet_Has 5 64
   \<and> SigSet_Has (SigSet_Del 5 3) 1 = SigSet_Has 5 1"
  using SigSet_membership [of 0 5] SigSet_membership [of 65 5] SigSet_membership [of "- 1" 5]
    SigSet_membership [of 2 5] SigSet_membership [of 3 5]
  by (simp add: word_sless_alt)

section \<open>Operations on a closed handle\<close>

text \<open>
  Claim C2, as stated, fails: after \<open>Close\<close>, \<open>Signal(0)\<close> still returns \<open>nil\<close>,
  \<open>SignalFD.ReadInto\<close> with a buffer shorter than 128 bytes still returns
  \<open>ErrInvalidParam\<close>, and \<open>FD.Read\<close> with an empty buffer still returns \<open>(0, nil)\<close>: each
  method tests its argument before it looks at the descriptor.
\<close>

theorem closed_handle_counterexample:
  "EventFD_Signal (linux (answer 0 0))
      (fst (snd (EventFD_Close (linux (answer 0 0)) \<lparr>e_fd = 3\<rparr> []))) 0 [SysClose 3]
     = (None, [SysClose 3])
   \<and> SignalFD_ReadInto (linux (answer 0 0))
      (fst (snd (SignalFD_Close (linux (answer 0 0)) \<lparr>s_fd = 3, s_mask = 0\<rparr> []))) [] [SysClose 3]
     = (0, Some ErrInvalidParam, [], [SysClose 3])
   \<and> FD_Read (linux (answer 0 0)) (fst (snd (FD_Close (linux (answer 0 0)) 3 []))) [] [SysClose 3]
     = (0, None, [], [SysClose 3])"
  by (simp add: EventFD_Signal_def SignalFD_ReadInto_def FD_Read_def signalInfoSize_def)

text \<open>
  Claim C2, amended. After the handle's \<open>Close\<close> has returned, every I/O or control
  operation whose argument passes the method's own argument test fails with
  \<open>ErrClosed\<close> and makes no kernel call: \<open>Read\<close> and \<open>Write\<close> of \<open>FD\<close> and \<open>MemFD\<close> with a
  non-empty buffer, \<open>Signal\<close> with a non-zero value, \<open>EventFD.Read\<close>, \<open>EventFD.Write\<close> and
  \<open>TimerFD.ReadInto\<close> with at least 8 bytes, \<open>SignalFD.ReadInto\<close> with at least 128
  bytes, and, with any argument, \<open>SetNonblock\<close>, \<open>SetCloexec\<close>, \<open>Dup\<close>, \<open>Wait\<close>, \<open>Arm\<close>,
  \<open>ArmAt\<close>, \<open>ArmDuration\<close>, \<open>Disarm\<close>, \<open>TimerFD.Read\<close>, \<open>GetTime\<close>, \<open>SignalFD.Read\<close>,
  \<open>SetMask\<close>, \<open>SendSignal\<close>, \<open>GetFD\<close>, \<open>Truncate\<close>, \<open>Size\<close>, \<open>Seal\<close> and \<open>Seals\<close>.
  \<open>EventFD.Value\<close>, the unsupported peek, returns \<open>ErrInvalidParam\<close> in every state.
  The argument tests run before the closed test, so on a closed handle \<open>Signal(0)\<close>
  still returns \<open>nil\<close>, a zero-length \<open>Read\<close> or \<open>Write\<close> of \<open>FD\<close> and \<open>MemFD\<close> still
  returns \<open>(0, nil)\<close>, and \<open>EventFD.Read\<close>, \<open>EventFD.Write\<close> and \<open>TimerFD.ReadInto\<close> with
  fewer than 8 bytes and \<open>SignalFD.ReadInto\<close> with fewer than 128 bytes still return
  \<open>ErrInvalidParam\<close>, all without a kernel call.
\<close>

theorem closed_handle_operations:
  assumes "fd' = fst (snd (FD_Close Z fd h0))"
    and "e' = fst (snd (EventFD_Close Z e h0))"
    and "t' = fst (snd (TimerFD_Close Z t h0))"
    and "s' = fst (snd (SignalFD_Close Z s h0))"
    and "p' = fst (snd (PidFD_Close Z p h0))"
    and "m' = fst (snd (MemFD_Close Z m h0))"
  shows
    "(buf \<noteq> [] \<longrightarrow>
        FD_Read Z fd' buf h = (0, Some ErrClosed, buf, h)
      \<and> FD_Write Z fd' buf h = (0, Some ErrClosed, h)
      \<and> MemFD_Read Z m' buf h = (0, Some ErrClosed, buf, h)
      \<and> MemFD_Write Z m' buf h = (0, Some ErrClosed, h))
     \<and> FD_SetNonblock Z fd' b h = (Some ErrClosed, h)
     \<and> FD_SetCloexec Z fd' b h = (Some ErrClosed, h)
     \<and> FD_Dup Z fd' h = (InvalidFD, Some ErrClosed, h)
     \<and> (val \<noteq> 0 \<longrightarrow> EventFD_Signal Z e' val h = (Some ErrClosed, h))
     \<and> EventFD_Wait Z e' h = (0, Some ErrClosed, h)
     \<and> EventFD_Value e' = (0, Some ErrInvalidParam)
     \<and> (8 \<le> length buf \<longrightarrow>
        EventFD_Read Z e' buf h = (0, Some ErrClosed, buf, h)
      \<and> EventFD_Write Z e' buf h = (0, Some ErrClosed, h)
      \<and> TimerFD_ReadInto Z t' buf h = (0, Some ErrClosed, buf, h))
     \<and> TimerFD_Arm Z t' initial interval h = (Some ErrClosed, h)
     \<and> TimerFD_ArmAt Z t' initial interval h = (Some ErrClosed, h)
     \<and> TimerFD_ArmDuration Z t' initial interval h = (Some ErrClosed, h)
     \<and> TimerFD_Disarm Z t' h = (Some ErrClosed, h)
     \<and> TimerFD_Read Z t' h = (0, Some ErrClosed, h)
     \<and> TimerFD_GetTime Z t' h = (0, 0, Some ErrClosed, h)
     \<and> SignalFD_Read Z s' h = (None, Some ErrClosed, h)
     \<and> (128 \<le> length buf \<longrightarrow> SignalFD_ReadInto Z s' buf h = (0, Some ErrClosed, buf, h))
     \<and> SignalFD_SetMask Z s' sigmask h = (Some ErrClosed, s', h)
     \<and> PidFD_SendSignal Z p' sig h = (Some ErrClosed, h)
     \<and> PidFD_GetFD Z p' targetFD h = (InvalidFD, Some ErrClosed, h)
     \<and> MemFD_Truncate Z m' sz h = (Some ErrClosed, h)
     \<and> MemFD_Size Z m' h = (0, Some ErrClosed, h)
     \<and> MemFD_Seal Z m' seals h = (Some ErrClosed, h)
     \<and> MemFD_Seals Z m' h = (0, Some ErrClosed, h)
     \<and> EventFD_Signal Z e' 0 h = (None, h)
     \<and> FD_Read Z fd' [] h = (0, None, [], h)
     \<and> FD_Write Z fd' [] h = (0, None, h)
     \<and> MemFD_Read Z m' [] h = (0, None, [], h)
     \<and> MemFD_Write Z m' [] h = (0, None, h)
     \<and> (length buf < 8 \<longrightarrow>
        EventFD_Read Z e' buf h = (0, Some ErrInvalidParam, buf, h)
      \<and> EventFD_Write Z e' buf h = (0, Some ErrInvalidParam, h)
      \<and> TimerFD_ReadInto Z t' buf h = (0, Some ErrInvalidParam, buf, h))
     \<and> (length buf < 128 \<longrightarrow>
        SignalFD_ReadInto Z s' buf h = (0, Some ErrInvalidParam, buf, h))"
proof -
  have c: "fd' <s 0" "e_fd e' <s 0" "t_fd t' <s 0" "s_fd s' <s 0" "p_fd p' <s 0" "m_fd m' <s 0"
    using assms minus_one_negative by (simp_all add: FD_Close_slot closed_after_Close)
  show ?thesis
    by (simp add: FD_closed_ops [OF c(1)] EventFD_closed_ops [OF c(2)]
        TimerFD_closed_ops [OF c(3)] SignalFD_closed_ops [OF c(4)] PidFD_closed_ops [OF c(5)]
        MemFD_closed_ops [OF c(6)] EventFD_Value_def argument_guards_first)
qed

theorem closed_handle_operations_witness:
  "FD_Read (linux (answer 0 0)) (fst (snd (FD_Close (linux (answer 0 0)) 3 [])))
      (replicate 128 0) [SysClose 3]
     = (0, Some ErrClosed, replicate 128 0, [SysClose 3])
   \<and> EventFD_Signal (linux (answer 0 0))
      (fst (snd (EventFD_Close (linux (answer 0 0)) \<lparr>e_fd = 3\<rparr> []))) 1 [SysClose 3]
     = (Some ErrClosed, [SysClose 3])
   \<and> EventFD_Read (linux (answer 0 0))
      (fst (snd (EventFD_Close (linux (answer 0 0)) \<lparr>e_fd = 3\<rparr> []))) (replicate 128 0) [SysClose 3]
     = (0, Some ErrClosed, replicate 128 0, [SysClose 3])
   \<and> SignalFD_ReadInto (linux (answer 0 0))
      (fst (snd (SignalFD_Close (linux (answer 0 0)) \<lparr>s_fd = 3, s_mask = 0\<rparr> [])))
      (replicate 128 0) [SysClose 3]
     = (0, Some ErrClosed, replicate 128 0, [SysClose 3])
   \<and> EventFD_Write (linux (answer 0 0))
      (fst (snd (EventFD_Close (linux (answer 0 0)) \<lparr>e_fd = 3\<rparr> []))) [1, 2, 3] [SysClose 3]
     = (0, Some ErrInvalidParam, [SysClose 3])
   \<and> SignalFD_ReadInto (linux (answer 0 0))
      (fst (snd (SignalFD_Close (linux (answer 0 0)) \<lparr>s_fd = 3, s_mask = 0\<rparr> [])))
      [1, 2, 3] [SysClose 3]
     = (0, Some ErrInvalidParam, [1, 2, 3], [SysClose 3])
   \<and> MemFD_Read (linux (answer 0 0))
      (fst (snd (MemFD_Close (linux (answer 0 0)) \<lparr>m_fd = 3, m_name = []\<rparr> []))) [] [SysClose 3]
     = (0, None, [], [SysClose 3])"
  using closed_handle_operations [OF refl refl refl refl refl refl,
      where Z = "linux (answer 0 0)" and fd = 3 and e = "\<lparr>e_fd = 3\<rparr>" and t = "\<lparr>t_fd = 3\<rparr>"
        and s = "\<lparr>s_fd = 3, s_mask = 0\<rparr>" and p = "\<lparr>p_fd = 3, p_pid = 1\<rparr>"
        and m = "\<lparr>m_fd = 3, m_name = []\<rparr>" and ?h0.0 = "[]" and buf = "replicate 128 0"
        and val = 1 and h = "[SysClose 3]"]
    closed_handle_operations [OF refl refl refl refl refl refl,
      where Z = "linux (answer 0 0)" and fd = 3 and e = "\<lparr>e_fd = 3\<rparr>" and t = "\<lparr>t_fd = 3\<rparr>"
        and s = "\<lparr>s_fd = 3, s_mask = 0\<rparr>" and p = "\<lparr>p_fd = 3, p_pid = 1\<rparr>"
        and m = "\<lparr>m_fd = 3, m_name = []\<rparr>" and ?h0.0 = "[]" and buf = "[1, 2, 3]"
        and val = 1 and h = "[SysClose 3]"]
  by simp

end
